theory Spec2Isabelle
  imports Main
begin

section \<open>The prediction service of app.py\<close>

text \<open>
  The program is one Flask module:
  \<^verbatim>\<open>
  app = Flask(__name__)
  model = joblib.load('slr_model.pkl')

  @app.route('/')
  def home():
      return render_template('index.html')

  @app.route('/predict', methods=['POST'])
  def predict():
      try:
          income = float(request.form['income'])
          prediction = model.predict(np.array([[income]]))[0]
          return render_template('index.html', prediction=prediction, income=income)
      except Exception as e:
          return render_template('index.html', error=str(e))

  if __name__ == '__main__':
      app.run(debug=True, port=5001)
  \<close>
  Every raise is a value of a sum type, the object the global \<open>model\<close> names is an
  explicit state that each handler receives and returns, and what the module takes from
  Python, werkzeug, joblib and the pickled artifact is a parameter.
\<close>

subsection \<open>Exceptions\<close>

text \<open>
  \<open>except Exception as e\<close> catches the instances of class \<open>Exception\<close> and nothing
  else: \<open>KeyboardInterrupt\<close>, \<open>SystemExit\<close> and \<open>GeneratorExit\<close> derive from
  \<open>BaseException\<close> only and pass through the handler. Each constructor carries
  \<open>str(e)\<close>, the one thing the handler reads from an exception.
\<close>

datatype exn =
    Exception string
  | BaseException_only string

subsection \<open>Data\<close>

text \<open>
  The form data of a request: the submitted fields in order, a key possibly several
  times. \<open>request.form\<close> is the werkzeug MultiDict parsed from them.
\<close>

type_synonym form = "(string \<times> string) list"

text \<open>
  The predictor is the unpickled object. The module reads it through its \<open>predict\<close>
  method only: from a two-dimensional array (rows of features) to a one-dimensional
  array of estimates, or an exception. The method is a method of a shared object, so it
  may change the object it is called on: it takes the contents \<open>'m\<close> of the object and
  returns them as the call left them. \<open>'f\<close> is Python's float, \<open>'p\<close> the element type
  of the result.
\<close>

record ('m, 'f, 'p) predictor =
  obj :: 'm
  predict_method :: "'m \<Rightarrow> 'f list list \<Rightarrow> (exn + 'p list) \<times> 'm"

text \<open>\<open>p.predict(x)\<close>: the result, and the object with the contents the call left.\<close>

definition model_predict ::
  "('m, 'f, 'p) predictor \<Rightarrow> 'f list list \<Rightarrow> (exn + 'p list) \<times> ('m, 'f, 'p) predictor" where
  "model_predict p x = (case predict_method p (obj p) x of (r, m') \<Rightarrow> (r, p\<lparr>obj := m'\<rparr>))"

text \<open>The process-wide state: the object the module's global \<open>model\<close> names.\<close>

record ('m, 'f, 'p) app_state =
  model :: "('m, 'f, 'p) predictor"

text \<open>
  What the handlers use of the Python runtime and of werkzeug: the builtin \<open>float\<close> on a
  string (\<open>None\<close> where it raises ValueError); the builtin \<open>repr\<close>, which the message of
  that ValueError quotes the string with; and the form parser that the first access to
  \<open>request.form\<close> runs, given as the \<open>str\<close> of the HTTPException it raises on the
  submitted fields (RequestEntityTooLarge when there are more parts, or a larger field,
  than its limits allow) and \<open>None\<close> where it accepts them.
\<close>

record 'f pylib =
  float_of :: "string \<Rightarrow> 'f option"
  repr_of :: "string \<Rightarrow> string"
  form_error :: "form \<Rightarrow> string option"

text \<open>
  Modelled from the spec: the template \<open>index.html\<close> is not among the sources. The spec
  calls it the form view, ``the single HTML page template rendered for both GET and POST
  responses'', populated with \<open>prediction\<close> and \<open>income\<close> on success or \<open>error\<close> on
  failure. A rendered view is the template's name with the keyword arguments it was
  rendered with; an argument that was not passed is \<open>None\<close>.
\<close>

record ('f, 'p) view =
  template :: string
  prediction :: "'p option"
  income :: "'f option"
  error :: "string option"

text \<open>A view function that returns a string gives the response that string with status 200.\<close>

record ('f, 'p) response =
  status :: nat
  body :: "('f, 'p) view"

definition render_template ::
  "string \<Rightarrow> 'p option \<Rightarrow> 'f option \<Rightarrow> string option \<Rightarrow> ('f, 'p) response" where
  "render_template name p i e =
     \<lparr>status = 200, body = \<lparr>template = name, prediction = p, income = i, error = e\<rparr>\<rparr>"

subsection \<open>The steps of the try block\<close>

text \<open>\<open>MultiDict.getlist(key)\<close>: every value submitted under the key, in order.\<close>

definition getlist :: "form \<Rightarrow> string \<Rightarrow> string list" where
  "getlist f k = map snd (filter (\<lambda>kv. fst kv = k) f)"

text \<open>
  \<open>request.form\<close>: the form is parsed at this access, inside the \<open>try\<close>; the parser's
  exception is raised here.
\<close>

definition request_form :: "'f pylib \<Rightarrow> form \<Rightarrow> exn + form" where
  "request_form L f = (case form_error L f of Some msg \<Rightarrow> Inl (Exception msg) | None \<Rightarrow> Inr f)"

text \<open>
  \<open>request.form[key]\<close>: the first value under the key of the parsed form; werkzeug
  raises BadRequestKeyError when there is none, an HTTPException whose \<open>str\<close> is its
  code, name and description.
\<close>

definition bad_request_key_error :: exn where
  "bad_request_key_error = Exception
     ''400 Bad Request: The browser (or proxy) sent a request that this server could not understand.''"

definition form_getitem :: "'f pylib \<Rightarrow> form \<Rightarrow> string \<Rightarrow> exn + string" where
  "form_getitem L f k =
     (case request_form L f of
        Inl e \<Rightarrow> Inl e
      | Inr d \<Rightarrow> (case getlist d k of [] \<Rightarrow> Inl bad_request_key_error | v # _ \<Rightarrow> Inr v))"

text \<open>\<open>float(s)\<close>: the parsed value, or ValueError with CPython's message.\<close>

definition py_float :: "'f pylib \<Rightarrow> string \<Rightarrow> exn + 'f" where
  "py_float L s =
     (case float_of L s of
        None \<Rightarrow> Inl (Exception (''could not convert string to float: '' @ repr_of L s))
      | Some v \<Rightarrow> Inr v)"

text \<open>\<open>ys[0]\<close> on the array \<open>predict\<close> returned: IndexError when it is empty.\<close>

definition getitem0 :: "'p list \<Rightarrow> exn + 'p" where
  "getitem0 ys =
     (case ys of
        [] \<Rightarrow> Inl (Exception ''index 0 is out of bounds for axis 0 with size 0'')
      | y # _ \<Rightarrow> Inr y)"

subsection \<open>The handlers\<close>

text \<open>\<open>home\<close>: the template with no argument.\<close>

definition home ::
  "('m, 'f, 'p) app_state \<Rightarrow> (exn + ('f, 'p) response) \<times> ('m, 'f, 'p) app_state" where
  "home st = (Inr (render_template ''index.html'' None None None), st)"

text \<open>
  The body of the \<open>try\<close>, statement by statement; the first raise ends it. From the call
  of \<open>model.predict\<close> on, the state holds the object as that call left it.
\<close>

definition predict_try ::
  "'f pylib \<Rightarrow> ('m, 'f, 'p) app_state \<Rightarrow> form \<Rightarrow>
     (exn + ('f, 'p) response) \<times> ('m, 'f, 'p) app_state" where
  "predict_try L st f =
     (case form_getitem L f ''income'' of
        Inl e \<Rightarrow> (Inl e, st)
      | Inr s \<Rightarrow>
          (case py_float L s of
             Inl e \<Rightarrow> (Inl e, st)
           | Inr v \<Rightarrow>
               (case model_predict (model st) [[v]] of
                  (Inl e, p') \<Rightarrow> (Inl e, st\<lparr>model := p'\<rparr>)
                | (Inr ys, p') \<Rightarrow>
                    (case getitem0 ys of
                       Inl e \<Rightarrow> (Inl e, st\<lparr>model := p'\<rparr>)
                     | Inr y \<Rightarrow>
                         (Inr (render_template ''index.html'' (Some y) (Some v) None),
                          st\<lparr>model := p'\<rparr>)))))"

text \<open>\<open>predict\<close>: the \<open>try\<close> with its \<open>except Exception as e\<close> clause.\<close>

definition predict ::
  "'f pylib \<Rightarrow> ('m, 'f, 'p) app_state \<Rightarrow> form \<Rightarrow>
     (exn + ('f, 'p) response) \<times> ('m, 'f, 'p) app_state" where
  "predict L st f =
     (case predict_try L st f of
        (Inr r, st') \<Rightarrow> (Inr r, st')
      | (Inl (Exception msg), st') \<Rightarrow>
          (Inr (render_template ''index.html'' None None (Some msg)), st')
      | (Inl (BaseException_only msg), st') \<Rightarrow> (Inl (BaseException_only msg), st'))"

subsection \<open>Routing and the serving loop\<close>

text \<open>
  The two routes of the module; any other request matches no view function and is
  answered by the framework.
\<close>

datatype request = GET_root | POST_predict form | Unrouted

datatype ('f, 'p) outcome =
    Response "('f, 'p) response"
  | Framework_reply
  | Propagated exn

definition outcome_of :: "exn + ('f, 'p) response \<Rightarrow> ('f, 'p) outcome" where
  "outcome_of x = (case x of Inl e \<Rightarrow> Propagated e | Inr r \<Rightarrow> Response r)"

fun handle ::
  "'f pylib \<Rightarrow> ('m, 'f, 'p) app_state \<Rightarrow> request \<Rightarrow>
     ('f, 'p) outcome \<times> ('m, 'f, 'p) app_state" where
  "handle L st GET_root = (case home st of (x, st') \<Rightarrow> (outcome_of x, st'))"
| "handle L st (POST_predict f) = (case predict L st f of (x, st') \<Rightarrow> (outcome_of x, st'))"
| "handle L st Unrouted = (Framework_reply, st)"

text \<open>
  \<open>app.run\<close>: requests one after the other, each from the state the one before left. An
  exception that leaves a view function costs that request its response; the server goes
  on with the next one.
\<close>

fun serve ::
  "'f pylib \<Rightarrow> ('m, 'f, 'p) app_state \<Rightarrow> request list \<Rightarrow>
     ('f, 'p) outcome list \<times> ('m, 'f, 'p) app_state" where
  "serve L st [] = ([], st)"
| "serve L st (r # rs) =
     (case handle L st r of
        (out, st') \<Rightarrow> (case serve L st' rs of (outs, st'') \<Rightarrow> (out # outs, st'')))"

subsection \<open>Start-up\<close>

text \<open>
  The module body: \<open>joblib.load\<close> reads the artifact from the world \<open>'w\<close> (the file
  system) and may change it; when it raises, the import of the module ends with that
  exception, before \<open>app.run\<close>.
\<close>

type_synonym ('w, 'm, 'f, 'p) loader =
  "'w \<Rightarrow> string \<Rightarrow> (exn + ('m, 'f, 'p) predictor) \<times> 'w"

datatype ('m, 'f, 'p) run_result =
    Startup_failed exn
  | Served "('f, 'p) outcome list" "('m, 'f, 'p) app_state"

definition main ::
  "('w, 'm, 'f, 'p) loader \<Rightarrow> 'f pylib \<Rightarrow> 'w \<Rightarrow> request list \<Rightarrow>
     ('m, 'f, 'p) run_result \<times> 'w" where
  "main load L w reqs =
     (case load w ''slr_model.pkl'' of
        (Inl e, w') \<Rightarrow> (Startup_failed e, w')
      | (Inr m, w') \<Rightarrow>
          (case serve L \<lparr>model = m\<rparr> reqs of (outs, st) \<Rightarrow> (Served outs st, w')))"

subsection \<open>A sample runtime for the examples\<close>

text \<open>
  Float values named by the literals the examples use, a fragment of \<open>float\<close> that reads
  them, and a form parser that refuses more than 1000 parts, werkzeug's default limit for
  a multipart form.
\<close>

datatype sample_float = Finite int | PosInf | NegInf | NaN

definition sample_float_of :: "string \<Rightarrow> sample_float option" where
  "sample_float_of s =
     (if s = ''50000'' then Some (Finite 50000)
      else if s = ''0'' then Some (Finite 0)
      else if s = ''-3'' then Some (Finite (- 3))
      else if s = ''inf'' then Some PosInf
      else if s = ''-inf'' then Some NegInf
      else if s = ''nan'' then Some NaN
      else None)"

definition sample_form_error :: "form \<Rightarrow> string option" where
  "sample_form_error f =
     (if 1000 < length f
      then Some ''413 Request Entity Too Large: The data value transmitted exceeds the capacity limit.''
      else None)"

definition sample_lib :: "sample_float pylib" where
  "sample_lib =
     \<lparr>float_of = sample_float_of, repr_of = (\<lambda>s. [CHR 39] @ s @ [CHR 39]),
      form_error = sample_form_error\<rparr>"

text \<open>
  A predictor that checks its input as scikit-learn estimators do (NaN and infinity are
  refused with a ValueError), is linear elsewhere, and leaves its object as it was.
\<close>

fun sample_predict :: "sample_float list list \<Rightarrow> exn + int list" where
  "sample_predict [[Finite x]] = Inr [2 * x + 7]"
| "sample_predict [[NaN]] = Inl (Exception ''Input X contains NaN.'')"
| "sample_predict [[PosInf]] = Inl (Exception ''Input X contains infinity.'')"
| "sample_predict [[NegInf]] = Inl (Exception ''Input X contains infinity.'')"
| "sample_predict xs = Inl (Exception ''X has a wrong number of features.'')"

definition sample_model :: "(unit, sample_float, int) predictor" where
  "sample_model = \<lparr>obj = (), predict_method = (\<lambda>m x. (sample_predict x, m))\<rparr>"

definition sample_state :: "(unit, sample_float, int) app_state" where
  "sample_state = \<lparr>model = sample_model\<rparr>"

text \<open>A predictor whose \<open>predict\<close> is interrupted: it raises KeyboardInterrupt.\<close>

definition interrupted_model :: "(unit, sample_float, int) predictor" where
  "interrupted_model =
     \<lparr>obj = (), predict_method = (\<lambda>m x. (Inl (BaseException_only ''''), m))\<rparr>"

text \<open>A predictor that counts its calls in the object and answers with the count.\<close>

definition counting_model :: "(nat, sample_float, int) predictor" where
  "counting_model =
     \<lparr>obj = 0, predict_method = (\<lambda>n x. (Inr [int (Suc n)], Suc n))\<rparr>"

text \<open>A form of 1001 parts, the first of them the income.\<close>

definition big_form :: form where
  "big_form = (''income'', ''0'') # replicate 1000 (''note'', ''x'')"

text \<open>Loaders over a world that counts the reads of the artifact.\<close>

definition sample_load_ok :: "(nat, unit, sample_float, int) loader" where
  "sample_load_ok w path = (Inr sample_model, Suc w)"

definition sample_load_missing :: "(nat, unit, sample_float, int) loader" where
  "sample_load_missing w path = (Inl (Exception (''No such file or directory: '' @ path)), Suc w)"

section \<open>Properties\<close>

subsection \<open>Auxiliary facts\<close>

lemma model_predict_read_only:
  assumes "\<And>m x. snd (predict_method p m x) = m"
  shows "snd (model_predict p x) = p"
proof -
  obtain r m' where c: "predict_method p (obj p) x = (r, m')"
    by (cases "predict_method p (obj p) x")
  with assms [of "obj p" x] have "m' = obj p" by simp
  with c show ?thesis by (simp add: model_predict_def)
qed

lemma predict_try_read_only:
  assumes "\<And>m x. snd (predict_method (model st) m x) = m"
  shows "snd (predict_try L st f) = st"
proof -
  have "\<And>v r p'. model_predict (model st) [[v]] = (r, p') \<Longrightarrow> p' = model st"
    using model_predict_read_only [of "model st", OF assms] by (metis snd_conv)
  then show ?thesis
    by (auto simp add: predict_try_def split: sum.splits prod.splits)
qed

lemma predict_read_only:
  assumes "\<And>m x. snd (predict_method (model st) m x) = m"
  shows "snd (predict L st f) = st"
proof -
  obtain x st' where c: "predict_try L st f = (x, st')"
    by (cases "predict_try L st f")
  with predict_try_read_only [of st L f, OF assms] have "st' = st" by simp
  with c show ?thesis
    by (simp add: predict_def split: sum.splits exn.splits)
qed

lemma handle_read_only:
  assumes "\<And>m x. snd (predict_method (model st) m x) = m"
  shows "snd (handle L st r) = st"
proof (cases r)
  case GET_root
  then show ?thesis by (simp add: home_def)
next
  case (POST_predict f)
  with predict_read_only [of st L f, OF assms] show ?thesis
    by (cases "predict L st f") simp
next
  case Unrouted
  then show ?thesis by simp
qed

lemma serve_read_only:
  assumes "\<And>m x. snd (predict_method (model st) m x) = m"
  shows "serve L st rs = (map (\<lambda>r. fst (handle L st r)) rs, st)"
proof (induction rs)
  case Nil
  show ?case by simp
next
  case (Cons r rs)
  obtain out st' where h: "handle L st r = (out, st')"
    by (cases "handle L st r")
  with handle_read_only [of st L r, OF assms] have "st' = st" by simp
  with h Cons show ?case by simp
qed

lemma model_predict_keeps_method:
  "predict_method (snd (model_predict p x)) = predict_method p"
  by (cases "predict_method p (obj p) x") (simp add: model_predict_def)

lemma predict_try_keeps_method:
  "predict_method (model (snd (predict_try L st f))) = predict_method (model st)"
proof -
  have "\<And>v r p'. model_predict (model st) [[v]] = (r, p') \<Longrightarrow>
      predict_method p' = predict_method (model st)"
    using model_predict_keeps_method [of "model st"] by (metis snd_conv)
  then show ?thesis
    by (auto simp add: predict_try_def split: sum.splits prod.splits)
qed

lemma predict_keeps_method:
  "predict_method (model (snd (predict L st f))) = predict_method (model st)"
proof -
  obtain x st' where c: "predict_try L st f = (x, st')"
    by (cases "predict_try L st f")
  with predict_try_keeps_method [of L st f]
  have "predict_method (model st') = predict_method (model st)" by simp
  with c show ?thesis
    by (simp add: predict_def split: sum.splits exn.splits)
qed


lemma predict_state_cases:
  "snd (predict L st f) = st \<or>
   (\<exists>v. snd (predict L st f) = st\<lparr>model := snd (model_predict (model st) [[v]])\<rparr>)"
proof -
  have t: "snd (predict_try L st f) = st \<or>
      (\<exists>v. snd (predict_try L st f) = st\<lparr>model := snd (model_predict (model st) [[v]])\<rparr>)"
  proof (cases "\<exists>s v. form_getitem L f ''income'' = Inr s \<and> float_of L s = Some v")
    case True
    then obtain s v where "form_getitem L f ''income'' = Inr s" and "float_of L s = Some v"
      by blast
    then have "snd (predict_try L st f) = st\<lparr>model := snd (model_predict (model st) [[v]])\<rparr>"
      by (simp add: predict_try_def py_float_def split: sum.splits prod.splits)
    then show ?thesis by blast
  next
    case False
    then have "snd (predict_try L st f) = st"
      by (simp add: predict_try_def py_float_def split: sum.splits option.splits)
    then show ?thesis by simp
  qed
  obtain x st' where c: "predict_try L st f = (x, st')"
    by (cases "predict_try L st f")
  then have "snd (predict L st f) = st'"
    by (simp add: predict_def split: sum.splits exn.splits)
  with t c show ?thesis by simp
qed

subsection \<open>The claims\<close>

text \<open>
  Claim C1, as the code has it. When the first value of the field \<open>income\<close> is a string
  \<open>s\<close> that \<open>float\<close> parses to \<open>v\<close> and the predictor returns a non-empty array for
  \<open>[[v]]\<close>, the POST to /predict answers 200 with the form view holding the array's first
  element as prediction, \<open>v\<close> as income and no error; the state holds the predictor as
  that one call left it.
\<close>

theorem predict_success:
  assumes "form_getitem L f ''income'' = Inr s"
    and "float_of L s = Some v"
    and "model_predict (model st) [[v]] = (Inr (y # ys), p')"
  shows "predict L st f =
    (Inr \<lparr>status = 200,
          body = \<lparr>template = ''index.html'', prediction = Some y, income = Some v,
                  error = None\<rparr>\<rparr>, st\<lparr>model := p'\<rparr>)"
  using assms
  by (simp add: predict_def predict_try_def py_float_def getitem0_def render_template_def)

text \<open>
  The input 50000 with the sample predictor: prediction 100007, income 50000.
\<close>

theorem predict_success_witness:
  "form_getitem sample_lib [(''income'', ''50000'')] ''income'' = Inr ''50000'' \<and>
   float_of sample_lib ''50000'' = Some (Finite 50000) \<and>
   model_predict (model sample_state) [[Finite 50000]] = (Inr [100007], sample_model) \<and>
   predict sample_lib sample_state [(''income'', ''50000'')] =
    (Inr \<lparr>status = 200,
          body = \<lparr>template = ''index.html'', prediction = Some 100007,
                  income = Some (Finite 50000), error = None\<rparr>\<rparr>, sample_state)"
proof -
  have a: "form_getitem sample_lib [(''income'', ''50000'')] ''income'' = Inr ''50000''"
    by (simp add: form_getitem_def request_form_def getlist_def sample_lib_def
        sample_form_error_def)
  have b: "float_of sample_lib ''50000'' = Some (Finite 50000)"
    by (simp add: sample_lib_def sample_float_of_def)
  have c: "model_predict (model sample_state) [[Finite 50000]] = (Inr [100007], sample_model)"
    by (simp add: sample_state_def sample_model_def model_predict_def)
  show ?thesis using a b c predict_success [OF a b c] by (simp add: sample_state_def)
qed

text \<open>
  Claim C1 as worded asks for a prediction and no error for every string that parses. The
  string \<open>nan\<close> parses, the sample predictor refuses NaN as scikit-learn estimators do, and
  the \<open>except\<close> clause renders the error alone: no prediction, no income.
\<close>

theorem predict_parsed_nan_counterexample:
  "form_getitem sample_lib [(''income'', ''nan'')] ''income'' = Inr ''nan'' \<and>
   float_of sample_lib ''nan'' = Some NaN \<and>
   fst (predict sample_lib sample_state [(''income'', ''nan'')]) =
     Inr \<lparr>status = 200,
          body = \<lparr>template = ''index.html'', prediction = None, income = None,
                  error = Some ''Input X contains NaN.''\<rparr>\<rparr>"
  by (simp add: predict_def predict_try_def py_float_def form_getitem_def request_form_def
      getlist_def sample_lib_def sample_float_of_def sample_form_error_def sample_state_def
      sample_model_def model_predict_def render_template_def)

text \<open>
  Claim C2. When the first value of the field \<open>income\<close> is a string that \<open>float\<close> does
  not parse, the POST to /predict answers 200 with the form view holding the message of
  the ValueError as error, no prediction and no income; the message is not empty. The
  predictor is not called, whatever it is, and the state is as it was.
\<close>

theorem predict_unparseable:
  assumes "form_getitem L f ''income'' = Inr s"
    and "float_of L s = None"
  shows "predict L st f =
    (Inr \<lparr>status = 200,
          body = \<lparr>template = ''index.html'', prediction = None, income = None,
                  error = Some (''could not convert string to float: '' @ repr_of L s)\<rparr>\<rparr>, st)
    \<and> ''could not convert string to float: '' @ repr_of L s \<noteq> []"
  using assms
  by (simp add: predict_def predict_try_def py_float_def render_template_def)

text \<open>
  The input abc, which the sample \<open>float\<close> refuses.
\<close>

theorem predict_unparseable_witness:
  "form_getitem sample_lib [(''income'', ''abc'')] ''income'' = Inr ''abc'' \<and>
   float_of sample_lib ''abc'' = None \<and>
   predict sample_lib sample_state [(''income'', ''abc'')] =
    (Inr \<lparr>status = 200,
          body = \<lparr>template = ''index.html'', prediction = None, income = None,
                  error = Some (''could not convert string to float: '' @ [CHR 39] @ ''abc'' @ [CHR 39])\<rparr>\<rparr>,
     sample_state)"
proof -
  have a: "form_getitem sample_lib [(''income'', ''abc'')] ''income'' = Inr ''abc''"
    by (simp add: form_getitem_def request_form_def getlist_def sample_lib_def
        sample_form_error_def)
  have b: "float_of sample_lib ''abc'' = None"
    by (simp add: sample_lib_def sample_float_of_def)
  show ?thesis using a b predict_unparseable [OF a b, of sample_state]
    by (simp add: sample_lib_def)
qed

text \<open>
  Claim C3, as the code has it. When the field \<open>income\<close> does not parse, or parses and
  the predictor raises an exception of class \<open>Exception\<close>, the handler returns a 200
  response with the form view carrying an error message and nothing is propagated; the
  serving loop goes on with the requests that follow, from the state the handler left.
\<close>

theorem predict_catches_failures:
  assumes "(\<exists>s. form_getitem L f ''income'' = Inr s \<and> float_of L s = None) \<or>
           (\<exists>s v m. form_getitem L f ''income'' = Inr s \<and> float_of L s = Some v \<and>
              fst (model_predict (model st) [[v]]) = Inl (Exception m))"
  shows "\<exists>msg. fst (predict L st f) =
           Inr \<lparr>status = 200,
                body = \<lparr>template = ''index.html'', prediction = None, income = None,
                        error = Some msg\<rparr>\<rparr> \<and>
         fst (serve L st (POST_predict f # rs)) =
           Response \<lparr>status = 200,
                     body = \<lparr>template = ''index.html'', prediction = None, income = None,
                             error = Some msg\<rparr>\<rparr> #
           fst (serve L (snd (predict L st f)) rs)"
proof -
  have "\<exists>msg. fst (predict_try L st f) = Inl (Exception msg)"
    using assms
  proof
    assume "\<exists>s. form_getitem L f ''income'' = Inr s \<and> float_of L s = None"
    then show ?thesis by (auto simp add: predict_try_def py_float_def)
  next
    assume "\<exists>s v m. form_getitem L f ''income'' = Inr s \<and> float_of L s = Some v \<and>
              fst (model_predict (model st) [[v]]) = Inl (Exception m)"
    then obtain s v m where g: "form_getitem L f ''income'' = Inr s"
      and fl: "float_of L s = Some v"
      and r: "fst (model_predict (model st) [[v]]) = Inl (Exception m)"
      by blast
    from r obtain p' where "model_predict (model st) [[v]] = (Inl (Exception m), p')"
      by (cases "model_predict (model st) [[v]]") simp
    with g fl show ?thesis by (simp add: predict_try_def py_float_def)
  qed
  then obtain msg where m: "fst (predict_try L st f) = Inl (Exception msg)" ..
  obtain x st' where c: "predict_try L st f = (x, st')"
    by (cases "predict_try L st f")
  with m have p: "predict L st f = (Inr (render_template ''index.html'' None None (Some msg)), st')"
    by (simp add: predict_def)
  obtain outs st'' where s: "serve L st' rs = (outs, st'')"
    by (cases "serve L st' rs")
  from p s have "fst (serve L st (POST_predict f # rs)) =
      Response (render_template ''index.html'' None None (Some msg)) #
      fst (serve L (snd (predict L st f)) rs)"
    by (simp add: outcome_of_def)
  with p show ?thesis by (auto simp add: render_template_def)
qed

text \<open>
  The input abc (no parse) followed by a GET, and the input nan (the sample predictor raises).
\<close>

theorem predict_catches_failures_witness:
  "(\<exists>s. form_getitem sample_lib [(''income'', ''abc'')] ''income'' = Inr s \<and>
      float_of sample_lib s = None) \<and>
   (\<exists>msg. fst (predict sample_lib sample_state [(''income'', ''abc'')]) =
           Inr \<lparr>status = 200,
                body = \<lparr>template = ''index.html'', prediction = None, income = None,
                        error = Some msg\<rparr>\<rparr> \<and>
         fst (serve sample_lib sample_state [POST_predict [(''income'', ''abc'')], GET_root]) =
           Response \<lparr>status = 200,
                     body = \<lparr>template = ''index.html'', prediction = None, income = None,
                             error = Some msg\<rparr>\<rparr> #
           fst (serve sample_lib
                 (snd (predict sample_lib sample_state [(''income'', ''abc'')])) [GET_root])) \<and>
   (\<exists>s v m. form_getitem sample_lib [(''income'', ''nan'')] ''income'' = Inr s \<and>
      float_of sample_lib s = Some v \<and>
      fst (model_predict (model sample_state) [[v]]) = Inl (Exception m)) \<and>
   (\<exists>msg. fst (predict sample_lib sample_state [(''income'', ''nan'')]) =
           Inr \<lparr>status = 200,
                body = \<lparr>template = ''index.html'', prediction = None, income = None,
                        error = Some msg\<rparr>\<rparr>)"
proof -
  have a: "\<exists>s. form_getitem sample_lib [(''income'', ''abc'')] ''income'' = Inr s \<and>
      float_of sample_lib s = None"
    by (simp add: form_getitem_def request_form_def getlist_def sample_lib_def
        sample_float_of_def sample_form_error_def)
  then have a': "(\<exists>s. form_getitem sample_lib [(''income'', ''abc'')] ''income'' = Inr s \<and>
      float_of sample_lib s = None) \<or>
    (\<exists>s v m. form_getitem sample_lib [(''income'', ''abc'')] ''income'' = Inr s \<and>
      float_of sample_lib s = Some v \<and>
      fst (model_predict (model sample_state) [[v]]) = Inl (Exception m))" by (rule disjI1)
  have "form_getitem sample_lib [(''income'', ''nan'')] ''income'' = Inr ''nan'' \<and>
      float_of sample_lib ''nan'' = Some NaN \<and>
      fst (model_predict (model sample_state) [[NaN]]) = Inl (Exception ''Input X contains NaN.'')"
    by (simp add: form_getitem_def request_form_def getlist_def sample_lib_def
        sample_float_of_def sample_form_error_def sample_state_def sample_model_def
        model_predict_def)
  then have b: "\<exists>s v m. form_getitem sample_lib [(''income'', ''nan'')] ''income'' = Inr s \<and>
      float_of sample_lib s = Some v \<and>
      fst (model_predict (model sample_state) [[v]]) = Inl (Exception m)"
    by blast
  then have b': "(\<exists>s. form_getitem sample_lib [(''income'', ''nan'')] ''income'' = Inr s \<and>
      float_of sample_lib s = None) \<or>
    (\<exists>s v m. form_getitem sample_lib [(''income'', ''nan'')] ''income'' = Inr s \<and>
      float_of sample_lib s = Some v \<and>
      fst (model_predict (model sample_state) [[v]]) = Inl (Exception m))" by (rule disjI2)
  from predict_catches_failures [OF a', of "[GET_root]"]
    predict_catches_failures [OF b', of "[]"] a b
  show ?thesis by blast
qed

text \<open>
  Claim C3 as worded covers every exception of the predictor. A predictor interrupted in
  \<open>predict\<close> raises KeyboardInterrupt, which is not an \<open>Exception\<close>: the \<open>except\<close>
  clause does not catch it, the handler returns no response and the exception leaves the
  view function.
\<close>

theorem predict_interrupted_counterexample:
  "form_getitem sample_lib [(''income'', ''0'')] ''income'' = Inr ''0'' \<and>
   float_of sample_lib ''0'' = Some (Finite 0) \<and>
   fst (model_predict interrupted_model [[Finite 0]]) = Inl (BaseException_only '''') \<and>
   fst (predict sample_lib \<lparr>model = interrupted_model\<rparr> [(''income'', ''0'')]) =
     Inl (BaseException_only '''') \<and>
   fst (serve sample_lib \<lparr>model = interrupted_model\<rparr> [POST_predict [(''income'', ''0'')]]) =
     [Propagated (BaseException_only '''')]"
  by (simp add: predict_def predict_try_def py_float_def form_getitem_def request_form_def
      getlist_def sample_lib_def sample_float_of_def sample_form_error_def
      interrupted_model_def model_predict_def outcome_of_def)

text \<open>
  Claim C4. A POST to /predict whose form has no field \<open>income\<close> is answered by the
  \<open>except\<close> clause as a parse failure is: status 200, the form view with an error string,
  no prediction and no income, the state as it was. The error string is the text of
  werkzeug's BadRequestKeyError when the form parser accepts the form, and the text of the
  parser's own exception when it refuses it.
\<close>

theorem predict_missing_income:
  assumes "''income'' \<notin> fst ` set f"
  shows "predict L st f =
    (Inr \<lparr>status = 200,
          body = \<lparr>template = ''index.html'', prediction = None, income = None,
                  error = Some (case form_error L f of
                      None \<Rightarrow> ''400 Bad Request: The browser (or proxy) sent a request that this server could not understand.''
                    | Some msg \<Rightarrow> msg)\<rparr>\<rparr>,
     st)"
proof -
  from assms have "filter (\<lambda>kv. fst kv = ''income'') f = []"
    by (force simp add: filter_empty_conv)
  then show ?thesis
    by (simp add: predict_def predict_try_def form_getitem_def request_form_def getlist_def
        bad_request_key_error_def render_template_def split: option.splits)
qed

text \<open>
  A form with the one field name.
\<close>

theorem predict_missing_income_witness:
  "''income'' \<notin> fst ` set [(''name'', ''x'')] \<and>
   predict sample_lib sample_state [(''name'', ''x'')] =
    (Inr \<lparr>status = 200,
          body = \<lparr>template = ''index.html'', prediction = None, income = None,
                  error = Some ''400 Bad Request: The browser (or proxy) sent a request that this server could not understand.''\<rparr>\<rparr>,
     sample_state)"
proof -
  have a: "''income'' \<notin> fst ` set [(''name'', ''x'')]" by simp
  from predict_missing_income [OF a, of sample_lib sample_state] a show ?thesis
    by (simp add: sample_lib_def sample_form_error_def)
qed

text \<open>
  Claim C5. After any sequence of earlier requests, from any state and with any
  predictor, GET / answers 200 with the form view with no prediction, no income and no
  error, and leaves the state as it was; \<open>home\<close> applied after \<open>home\<close> gives what
  \<open>home\<close> gives.
\<close>

theorem home_static:
  "handle L (snd (serve L st reqs)) GET_root =
     (Response \<lparr>status = 200,
                body = \<lparr>template = ''index.html'', prediction = None, income = None,
                        error = None\<rparr>\<rparr>, snd (serve L st reqs)) \<and>
   home (snd (home st)) = home st"
  by (simp add: home_def outcome_of_def render_template_def)

text \<open>
  Claim C6. When \<open>joblib.load\<close> raises, the run ends with that exception: no request is
  served, and the world is the one that single attempt to load left (no second attempt,
  no other predictor).
\<close>

theorem startup_failure_is_fatal:
  assumes "load w ''slr_model.pkl'' = (Inl e, w')"
  shows "main load L w reqs = (Startup_failed e, w')"
  using assms by (simp add: main_def)

text \<open>
  A loader that finds no artifact, over a world that counts the attempts: one attempt, nothing served.
\<close>

theorem startup_failure_is_fatal_witness:
  "sample_load_missing 0 ''slr_model.pkl'' =
     (Inl (Exception ''No such file or directory: slr_model.pkl''), 1) \<and>
   main sample_load_missing sample_lib 0 [GET_root, POST_predict [(''income'', ''0'')]] =
     (Startup_failed (Exception ''No such file or directory: slr_model.pkl''), 1)"
proof -
  have a: "sample_load_missing 0 ''slr_model.pkl'' =
     (Inl (Exception ''No such file or directory: slr_model.pkl''), 1)"
    by (simp add: sample_load_missing_def)
  show ?thesis
    using a startup_failure_is_fatal [of sample_load_missing 0
        "Exception ''No such file or directory: slr_model.pkl''" 1 sample_lib
        "[GET_root, POST_predict [(''income'', ''0'')]]"]
    by simp
qed

text \<open>
  Claim C7. For every value \<open>v\<close> that \<open>float\<close> returns, whatever it is, the handler
  calls the predictor at \<open>[[v]]\<close> and the response is fixed by what the predictor
  answers there: no value is refused before the call. The state afterwards holds the
  predictor as that one call at \<open>[[v]]\<close> left it. A predictor that returns its own
  argument shows the argument to be \<open>[[v]]\<close>, one row of one feature, and the income shown
  to be \<open>v\<close>.
\<close>

theorem predict_forwards_value:
  assumes "form_getitem L f ''income'' = Inr s"
    and "float_of L s = Some v"
  shows "fst (predict L st f) =
     (case fst (model_predict (model st) [[v]]) of
        Inl (Exception msg) \<Rightarrow> Inr (render_template ''index.html'' None None (Some msg))
      | Inl (BaseException_only msg) \<Rightarrow> Inl (BaseException_only msg)
      | Inr [] \<Rightarrow> Inr (render_template ''index.html'' None None
                     (Some ''index 0 is out of bounds for axis 0 with size 0''))
      | Inr (y # ys) \<Rightarrow> Inr (render_template ''index.html'' (Some y) (Some v) None)) \<and>
   snd (predict L st f) = st\<lparr>model := snd (model_predict (model st) [[v]])\<rparr> \<and>
   fst (predict L \<lparr>model = \<lparr>obj = (), predict_method = (\<lambda>m x. (Inr [x], m))\<rparr>\<rparr> f) =
     Inr (render_template ''index.html'' (Some [[v]]) (Some v) None)"
  using assms
  by (simp add: predict_def predict_try_def py_float_def getitem0_def model_predict_def
      split: sum.splits exn.splits list.splits prod.splits)

text \<open>
  NaN reaches the predictor as \<open>[[NaN]]\<close>.
\<close>

theorem predict_forwards_value_witness:
  "form_getitem sample_lib [(''income'', ''nan'')] ''income'' = Inr ''nan'' \<and>
   float_of sample_lib ''nan'' = Some NaN \<and>
   fst (predict sample_lib \<lparr>model = \<lparr>obj = (), predict_method = (\<lambda>m x. (Inr [x], m))\<rparr>\<rparr>
         [(''income'', ''nan'')]) =
     Inr \<lparr>status = 200,
          body = \<lparr>template = ''index.html'', prediction = Some [[NaN]], income = Some NaN,
                  error = None\<rparr>\<rparr>"
proof -
  have a: "form_getitem sample_lib [(''income'', ''nan'')] ''income'' = Inr ''nan''"
    by (simp add: form_getitem_def request_form_def getlist_def sample_lib_def
        sample_form_error_def)
  have b: "float_of sample_lib ''nan'' = Some NaN"
    by (simp add: sample_lib_def sample_float_of_def)
  from predict_forwards_value [OF a b, of sample_state] a b show ?thesis
    by (simp add: render_template_def)
qed

text \<open>
  Claim C8, as the code has it. No handler rebinds the global \<open>model\<close> or replaces the
  predictor's \<open>predict\<close> method: GET / and a request that matches no route leave the state
  as it was, and POST /predict leaves it as it was or with the predictor as one call of
  its own \<open>predict\<close> left it. When \<open>predict\<close> leaves the object it is called on as it
  was, POST /predict, the dispatch of any request and the serving of any sequence of
  requests return the state as it was, every request of a sequence is answered as it
  would be alone from the initial state, and a run whose load returned the predictor
  ends with that predictor, in the world that single load left.
\<close>

theorem model_changed_by_predict_method_only:
  "snd (home st) = st \<and> snd (handle L st GET_root) = st \<and> snd (handle L st Unrouted) = st \<and>
   predict_method (model (snd (predict L st f))) = predict_method (model st) \<and>
   (snd (predict L st f) = st \<or>
    (\<exists>v. snd (predict L st f) = st\<lparr>model := snd (model_predict (model st) [[v]])\<rparr>)) \<and>
   ((\<forall>m x. snd (predict_method (model st) m x) = m) \<longrightarrow>
      snd (predict L st f) = st \<and> snd (handle L st r) = st \<and>
      serve L st rs = (map (\<lambda>r. fst (handle L st r)) rs, st) \<and>
      (load w ''slr_model.pkl'' = (Inr (model st), w') \<longrightarrow>
         main load L w rs = (Served (map (\<lambda>r. fst (handle L st r)) rs) st, w')))"
proof -
  have a: "snd (home st) = st \<and> snd (handle L st GET_root) = st \<and> snd (handle L st Unrouted) = st"
    by (simp add: home_def)
  have b: "(\<forall>m x. snd (predict_method (model st) m x) = m) \<longrightarrow>
      snd (predict L st f) = st \<and> snd (handle L st r) = st \<and>
      serve L st rs = (map (\<lambda>r. fst (handle L st r)) rs, st) \<and>
      (load w ''slr_model.pkl'' = (Inr (model st), w') \<longrightarrow>
         main load L w rs = (Served (map (\<lambda>r. fst (handle L st r)) rs) st, w'))"
  proof
    assume "\<forall>m x. snd (predict_method (model st) m x) = m"
    then have ro: "\<And>m x. snd (predict_method (model st) m x) = m" by simp
    have e: "\<lparr>model = model st\<rparr> = st" by simp
    have s: "serve L st rs = (map (\<lambda>r. fst (handle L st r)) rs, st)"
      using ro by (rule serve_read_only)
    have "load w ''slr_model.pkl'' = (Inr (model st), w') \<longrightarrow>
         main load L w rs = (Served (map (\<lambda>r. fst (handle L st r)) rs) st, w')"
      using s by (simp add: main_def e)
    with s predict_read_only [of st L f, OF ro] handle_read_only [of st L r, OF ro]
    show "snd (predict L st f) = st \<and> snd (handle L st r) = st \<and>
      serve L st rs = (map (\<lambda>r. fst (handle L st r)) rs, st) \<and>
      (load w ''slr_model.pkl'' = (Inr (model st), w') \<longrightarrow>
         main load L w rs = (Served (map (\<lambda>r. fst (handle L st r)) rs) st, w'))"
      by simp
  qed
  from a b predict_keeps_method [of L st f] predict_state_cases [of L st f]
  show ?thesis by blast
qed

text \<open>
  A successful start-up with the sample predictor, which leaves its object alone, followed by a POST and a GET.
\<close>

theorem model_changed_by_predict_method_only_witness:
  "(\<forall>m x. snd (predict_method (model sample_state) m x) = m) \<and>
   sample_load_ok 0 ''slr_model.pkl'' = (Inr (model sample_state), 1) \<and>
   snd (predict sample_lib sample_state [(''income'', ''50000'')]) = sample_state \<and>
   serve sample_lib sample_state [POST_predict [(''income'', ''50000'')], GET_root] =
     ([fst (handle sample_lib sample_state (POST_predict [(''income'', ''50000'')])),
       fst (handle sample_lib sample_state GET_root)], sample_state) \<and>
   main sample_load_ok sample_lib 0 [POST_predict [(''income'', ''50000'')], GET_root] =
     (Served [fst (handle sample_lib sample_state (POST_predict [(''income'', ''50000'')])),
              fst (handle sample_lib sample_state GET_root)] sample_state, 1)"
proof -
  have a: "\<forall>m x. snd (predict_method (model sample_state) m x) = m"
    by (simp add: sample_state_def sample_model_def)
  have b: "sample_load_ok 0 ''slr_model.pkl'' = (Inr (model sample_state), 1)"
    by (simp add: sample_load_ok_def sample_state_def)
  show ?thesis
    using a b model_changed_by_predict_method_only [where st = sample_state and L = sample_lib
        and f = "[(''income'', ''50000'')]"
        and rs = "[POST_predict [(''income'', ''50000'')], GET_root]"
        and load = sample_load_ok and w = 0 and w' = 1]
    by simp
qed

text \<open>
  Claim C8 as worded has every operation leave the predictor unchanged and requests
  independent. The handler calls a method of the shared object, and a predictor that
  counts its calls is changed by a POST: the same request sent twice is answered with
  prediction 1 and then with prediction 2.
\<close>

theorem counting_model_counterexample:
  "obj (model \<lparr>model = counting_model\<rparr>) = 0 \<and>
   obj (model (snd (predict sample_lib \<lparr>model = counting_model\<rparr> [(''income'', ''0'')]))) = 1 \<and>
   fst (serve sample_lib \<lparr>model = counting_model\<rparr>
         [POST_predict [(''income'', ''0'')], POST_predict [(''income'', ''0'')]]) =
     [Response \<lparr>status = 200,
                body = \<lparr>template = ''index.html'', prediction = Some 1,
                        income = Some (Finite 0), error = None\<rparr>\<rparr>,
      Response \<lparr>status = 200,
                body = \<lparr>template = ''index.html'', prediction = Some 2,
                        income = Some (Finite 0), error = None\<rparr>\<rparr>]"
  by (simp add: predict_def predict_try_def py_float_def form_getitem_def request_form_def
      getlist_def getitem0_def sample_lib_def sample_float_of_def sample_form_error_def
      counting_model_def model_predict_def outcome_of_def render_template_def)



text \<open>
  Claim C10, as the code has it. Two forms with the same values under \<open>income\<close> that the
  form parser treats alike (it accepts both, or refuses both with the same error) get,
  from the same state, the same response to a POST to /predict and leave the same state,
  whatever their other fields are.
\<close>

theorem predict_depends_on_income_only:
  assumes "getlist f1 ''income'' = getlist f2 ''income''"
    and "form_error L f1 = form_error L f2"
  shows "predict L st f1 = predict L st f2"
  using assms
  by (simp add: predict_def predict_try_def form_getitem_def request_form_def
      split: option.splits)

text \<open>
  Two forms that share the income 50000 and nothing else, both within the parser's limits.
\<close>

theorem predict_depends_on_income_only_witness:
  "getlist [(''income'', ''50000''), (''name'', ''x'')] ''income'' =
     getlist [(''zip'', ''90210''), (''income'', ''50000''), (''name'', ''y'')] ''income'' \<and>
   form_error sample_lib [(''income'', ''50000''), (''name'', ''x'')] =
     form_error sample_lib [(''zip'', ''90210''), (''income'', ''50000''), (''name'', ''y'')] \<and>
   predict sample_lib sample_state [(''income'', ''50000''), (''name'', ''x'')] =
     predict sample_lib sample_state [(''zip'', ''90210''), (''income'', ''50000''), (''name'', ''y'')]"
proof -
  have a: "getlist [(''income'', ''50000''), (''name'', ''x'')] ''income'' =
     getlist [(''zip'', ''90210''), (''income'', ''50000''), (''name'', ''y'')] ''income''"
    by (simp add: getlist_def)
  have b: "form_error sample_lib [(''income'', ''50000''), (''name'', ''x'')] =
     form_error sample_lib [(''zip'', ''90210''), (''income'', ''50000''), (''name'', ''y'')]"
    by (simp add: sample_lib_def sample_form_error_def)
  from predict_depends_on_income_only [OF a b] a b show ?thesis by blast
qed

text \<open>
  Claim C10 as worded lets the other fields vary freely. \<open>request.form\<close> is parsed
  inside the \<open>try\<close>, and the parser refuses a form of more than 1000 parts: the income 0
  alone gets the prediction, the income 0 followed by 1000 other fields gets the error of
  the parser.
\<close>

theorem big_form_counterexample:
  "getlist [(''income'', ''0'')] ''income'' = getlist big_form ''income'' \<and>
   fst (predict sample_lib sample_state [(''income'', ''0'')]) =
     Inr \<lparr>status = 200,
          body = \<lparr>template = ''index.html'', prediction = Some 7, income = Some (Finite 0),
                  error = None\<rparr>\<rparr> \<and>
   fst (predict sample_lib sample_state big_form) =
     Inr \<lparr>status = 200,
          body = \<lparr>template = ''index.html'', prediction = None, income = None,
                  error = Some ''413 Request Entity Too Large: The data value transmitted exceeds the capacity limit.''\<rparr>\<rparr>"
  by (simp add: predict_def predict_try_def py_float_def form_getitem_def request_form_def
      getlist_def getitem0_def sample_lib_def sample_float_of_def sample_form_error_def
      sample_state_def sample_model_def model_predict_def render_template_def big_form_def)

end
